theory Spec2Isabelle
  imports Complex_Main "HOL-Library.Word" "HOL-Library.Sublist"
begin

section \<open>Values\<close>

text \<open>
  A JavaScript string is a sequence of UTF-16 code units; \<open>.length\<close> counts code units
  and a regular expression without the \<open>u\<close> flag matches code units.
\<close>

type_synonym jschar = "16 word"
type_synonym jsstring = "jschar list"

text \<open>A source literal (all of them are ASCII) as code units.\<close>

definition lit :: "string \<Rightarrow> jsstring" where
  "lit s = map of_char s"

text \<open>
  The scalar values a JSON body or a stored document carries. A JSON number is a finite
  double, hence a rational; \<open>JDate\<close> is the \<open>Date\<close> the server stores in \<open>createdAt\<close>
  (milliseconds). A variable that may be \<open>undefined\<close> (a field the body does not have) is
  a \<open>jsval option\<close>, with \<open>None\<close> for \<open>undefined\<close>. Arrays and nested documents are
  outside the model.
\<close>

datatype jsval = JNull | JBool bool | JNum rat | JStr jsstring | JDate int

text \<open>JavaScript truthiness: \<open>!x\<close> is \<open>\<not> truthy x\<close>.\<close>

fun truthy :: "jsval option \<Rightarrow> bool" where
  "truthy None = False"
| "truthy (Some JNull) = False"
| "truthy (Some (JBool b)) = b"
| "truthy (Some (JNum n)) = (n \<noteq> 0)"
| "truthy (Some (JStr s)) = (s \<noteq> [])"
| "truthy (Some (JDate t)) = True"

section \<open>Data model\<close>

text \<open>
  A user document as the two inserting handlers build it: \<open>/register\<close> writes
  \<open>{name, email, photoURL, password}\<close>, \<open>/google-login\<close> writes
  \<open>{name, email, photoURL, fromGoogle: true}\<close>. No handler addresses a user by \<open>_id\<close>, so
  the identifier the store assigns to it is left out.
\<close>

record user =
  name :: jsstring
  email :: jsstring
  photoURL :: "jsstring option"
  password :: "jsstring option"
  fromGoogle :: bool

text \<open>
  The field names of the course catalogue: the six of the \<open>POST /courses\<close> body and the
  two the server adds. A body of \<open>PUT /courses/:id\<close> is a partial map on them.
\<close>

datatype field =
  Title | Description | Category | Price | Instructor | ImageBase64 | Image | CreatedAt

type_synonym doc = "field \<rightharpoonup> jsval"

type_synonym oid = "96 word"

record course =
  course_id :: oid
  course_fields :: doc

text \<open>
  The world the handlers act on: the two collections, each in the store's natural
  (insertion) order, and the payloads sent to the image host so far.
\<close>

record world =
  usersCollection :: "user list"
  coursesCollection :: "course list"
  imgbb_calls :: "jsval option list"

text \<open>
  The libraries the handlers call, as parameters: \<open>bcrypt.hash\<close> (with the salt it draws),
  \<open>bcrypt.compare\<close>, the \<open>ObjectId\<close> constructor on a route parameter (\<open>None\<close> when it
  throws) and the upload to the image host (\<open>None\<close> when the request fails).
\<close>

type_synonym salt = "128 word"

record libs =
  bcrypt_hash :: "salt \<Rightarrow> jsstring \<Rightarrow> jsstring"
  bcrypt_compare :: "jsstring \<Rightarrow> jsstring \<Rightarrow> bool"
  ObjectId :: "jsstring \<Rightarrow> oid option"
  uploadToImgBB :: "jsval option \<Rightarrow> jsstring option"

text \<open>
  What one request draws from its surroundings: the clock (milliseconds), the salt of
  \<open>bcrypt.hash\<close> and the identifier the driver generates for an inserted course.
\<close>

record ambient =
  now :: int
  fresh_salt :: salt
  fresh_id :: oid

text \<open>
  \<open>jwt.sign({email}, secret, {expiresIn: "7d"})\<close>: the token is represented by the
  payload it signs, the email claim with the issue and expiry times in seconds. The
  secret is one per process and is taken as configured.
\<close>

datatype token = Token (claim_email: jsstring) (iat: int) (exp: int)

definition jwt_sign :: "jsstring \<Rightarrow> int \<Rightarrow> token" where
  "jwt_sign e t = Token e (t div 1000) (t div 1000 + 7 * 24 * 60 * 60)"

text \<open>A response: the status code and the JSON (or text) body.\<close>

datatype payload =
  Message string
| MessageToken string token
| MessageError string
| MessageCourse string course
| Courses "course list"
| Text string

datatype response = Response (status: nat) (body: payload)

section \<open>Store operations\<close>

text \<open>\<open>usersCollection.findOne({email})\<close>: the first user with that email.\<close>

definition findOne :: "jsstring \<Rightarrow> user list \<Rightarrow> user option" where
  "findOne e us = find (\<lambda>u. email u = e) us"

text \<open>\<open>usersCollection.insertOne(u)\<close>.\<close>

definition insertUser :: "user \<Rightarrow> user list \<Rightarrow> user list" where
  "insertUser u us = us @ [u]"

text \<open>
  \<open>coursesCollection.insertOne(d)\<close> with the identifier the driver generated: the store
  keeps \<open>_id\<close> unique and rejects a duplicate.
\<close>

definition insertOne :: "oid \<Rightarrow> doc \<Rightarrow> course list \<Rightarrow> course list option" where
  "insertOne i d cs =
     (if i \<in> set (map course_id cs) then None
      else Some (cs @ [\<lparr>course_id = i, course_fields = d\<rparr>]))"

text \<open>\<open>coursesCollection.find(query).toArray()\<close>, the query being \<open>{}\<close> or \<open>{category}\<close>.\<close>

definition find_courses :: "jsstring option \<Rightarrow> course list \<Rightarrow> course list" where
  "find_courses q cs =
     (case q of None \<Rightarrow> cs
      | Some c \<Rightarrow> filter (\<lambda>d. course_fields d Category = Some (JStr c)) cs)"

text \<open>\<open>updateOne({_id: i}, {$set: s})\<close>: the first document with that \<open>_id\<close> gets the
  fields of \<open>s\<close>.\<close>

fun updateOne :: "oid \<Rightarrow> doc \<Rightarrow> course list \<Rightarrow> course list" where
  "updateOne i s [] = []"
| "updateOne i s (c # cs) =
     (if course_id c = i then c\<lparr>course_fields := course_fields c ++ s\<rparr> # cs
      else c # updateOne i s cs)"

text \<open>\<open>deleteOne({_id: i})\<close>: the first document with that \<open>_id\<close> goes.\<close>

fun deleteOne :: "oid \<Rightarrow> course list \<Rightarrow> course list" where
  "deleteOne i [] = []"
| "deleteOne i (c # cs) = (if course_id c = i then cs else c # deleteOne i cs)"

section \<open>Credential service\<close>

text \<open>\<open>/[A-Z]/.test(s)\<close> and \<open>/[a-z]/.test(s)\<close>.\<close>

definition has_upper :: "jsstring \<Rightarrow> bool" where
  "has_upper s = list_ex (\<lambda>c. 0x41 \<le> c \<and> c \<le> 0x5A) s"

definition has_lower :: "jsstring \<Rightarrow> bool" where
  "has_lower s = list_ex (\<lambda>c. 0x61 \<le> c \<and> c \<le> 0x7A) s"

definition server_error :: response where
  "server_error = Response 500 (MessageError ''Server error'')"

text \<open>
  \<open>POST /register\<close> with body \<open>{name, email, photoURL, password}\<close>. The fields of a
  credential body are strings, as the data model has them; \<open>photoURL\<close> may be absent.
\<close>

definition register ::
  "libs \<Rightarrow> ambient \<Rightarrow> world \<Rightarrow> jsstring \<Rightarrow> jsstring \<Rightarrow> jsstring option \<Rightarrow> jsstring
     \<Rightarrow> response \<times> world" where
  "register L a w n e p pw =
     (if \<not> has_upper pw then
        (Response 400 (Message ''Password must include at least one uppercase letter.''), w)
      else if \<not> has_lower pw then
        (Response 400 (Message ''Password must include at least one lowercase letter.''), w)
      else if length pw < 6 then
        (Response 400 (Message ''Password must be at least 6 characters long.''), w)
      else
        (case findOne e (usersCollection w) of
           Some existingUser \<Rightarrow>
             (Response 400 (Message ''User already exists. Please log in.''), w)
         | None \<Rightarrow>
             (let hashedPassword = bcrypt_hash L (fresh_salt a) pw;
                  newUser = \<lparr>name = n, email = e, photoURL = p,
                             password = Some hashedPassword, fromGoogle = False\<rparr>
              in (Response 201 (MessageToken ''Registration successful!'' (jwt_sign e (now a))),
                  w\<lparr>usersCollection := insertUser newUser (usersCollection w)\<rparr>))))"

text \<open>
  \<open>POST /login\<close> with body \<open>{email, password}\<close>. A user created by \<open>/google-login\<close> has no
  \<open>password\<close>; \<open>bcrypt.compare\<close> rejects an \<open>undefined\<close> hash and the handler's
  \<open>catch\<close> answers 500.
\<close>

definition login :: "libs \<Rightarrow> ambient \<Rightarrow> world \<Rightarrow> jsstring \<Rightarrow> jsstring \<Rightarrow> response \<times> world" where
  "login L a w e pw =
     (case findOne e (usersCollection w) of
        None \<Rightarrow> (Response 400 (Message ''No user found with this email.''), w)
      | Some u \<Rightarrow>
          (case password u of
             None \<Rightarrow> (server_error, w)
           | Some h \<Rightarrow>
               if \<not> bcrypt_compare L pw h then
                 (Response 400 (Message ''Incorrect password.''), w)
               else
                 (Response 200 (MessageToken ''Login successful!'' (jwt_sign e (now a))), w)))"

text \<open>\<open>POST /google-login\<close> with body \<open>{name, email, photoURL}\<close>.\<close>

definition googleLogin ::
  "ambient \<Rightarrow> world \<Rightarrow> jsstring \<Rightarrow> jsstring \<Rightarrow> jsstring option \<Rightarrow> response \<times> world" where
  "googleLogin a w n e p =
     (let w' = (case findOne e (usersCollection w) of
                  Some u \<Rightarrow> w
                | None \<Rightarrow>
                    w\<lparr>usersCollection :=
                        insertUser \<lparr>name = n, email = e, photoURL = p,
                                    password = None, fromGoogle = True\<rparr> (usersCollection w)\<rparr>)
      in (Response 200 (MessageToken ''Google login successful!'' (jwt_sign e (now a))), w'))"

section \<open>Course catalog service\<close>

text \<open>
  \<open>GET /courses?category=\<close>: \<open>category ? { category } : {}\<close>. The query parameter is
  a string or absent.
\<close>

definition listCourses :: "world \<Rightarrow> jsstring option \<Rightarrow> response \<times> world" where
  "listCourses w category =
     (let query = (if truthy (map_option JStr category) then category else None);
          courses = find_courses query (coursesCollection w)
      in (Response 200 (Courses courses), w))"

text \<open>
  \<open>POST /courses\<close> with body \<open>b\<close>. The image host is called once the six fields have
  passed the check; a failed upload or a rejected insert ends in the handler's
  \<open>catch\<close>. \<open>insertOne\<close> writes the generated \<open>_id\<close> into \<open>newCourse\<close>, so the
  response carries it.
\<close>

definition createCourse :: "libs \<Rightarrow> ambient \<Rightarrow> world \<Rightarrow> doc \<Rightarrow> response \<times> world" where
  "createCourse L a w b =
     (let title = b Title; description = b Description; category = b Category;
          price = b Price; instructor = b Instructor; imageBase64 = b ImageBase64
      in if \<not> truthy title \<or> \<not> truthy description \<or> \<not> truthy category \<or> \<not> truthy price
            \<or> \<not> truthy instructor \<or> \<not> truthy imageBase64 then
           (Response 400 (Message ''All fields are required!''), w)
         else
           (let w1 = w\<lparr>imgbb_calls := imgbb_calls w @ [imageBase64]\<rparr>
            in case uploadToImgBB L imageBase64 of
                 None \<Rightarrow> (server_error, w1)
               | Some imageUrl \<Rightarrow>
                   (let newCourse = Map.empty(Title := title, Description := description,
                          Category := category, Price := price, Instructor := instructor,
                          Image \<mapsto> JStr imageUrl, CreatedAt \<mapsto> JDate (now a))
                    in case insertOne (fresh_id a) newCourse (coursesCollection w1) of
                         None \<Rightarrow> (server_error, w1)
                       | Some cs \<Rightarrow>
                           (Response 201 (MessageCourse ''Course added successfully!''
                              \<lparr>course_id = fresh_id a, course_fields = newCourse\<rparr>),
                            w1\<lparr>coursesCollection := cs\<rparr>))))"

text \<open>\<open>PUT /courses/:id\<close> with body \<open>b\<close>; \<open>new ObjectId(id)\<close> throws on a malformed id.\<close>

definition updateCourse :: "libs \<Rightarrow> world \<Rightarrow> jsstring \<Rightarrow> doc \<Rightarrow> response \<times> world" where
  "updateCourse L w ident b =
     (case ObjectId L ident of
        None \<Rightarrow> (server_error, w)
      | Some i \<Rightarrow>
          (Response 200 (Message ''Course updated successfully!''),
           w\<lparr>coursesCollection := updateOne i b (coursesCollection w)\<rparr>))"

text \<open>\<open>DELETE /courses/:id\<close>.\<close>

definition deleteCourse :: "libs \<Rightarrow> world \<Rightarrow> jsstring \<Rightarrow> response \<times> world" where
  "deleteCourse L w ident =
     (case ObjectId L ident of
        None \<Rightarrow> (server_error, w)
      | Some i \<Rightarrow>
          (Response 200 (Message ''Course deleted successfully!''),
           w\<lparr>coursesCollection := deleteOne i (coursesCollection w)\<rparr>))"

text \<open>\<open>GET /\<close>.\<close>

definition health :: "world \<Rightarrow> response \<times> world" where
  "health w = (Response 200 (Text ''Online Learning Platform API is running...''), w)"

section \<open>Routes\<close>

datatype request =
  PostRegister jsstring jsstring "jsstring option" jsstring
| PostLogin jsstring jsstring
| PostGoogleLogin jsstring jsstring "jsstring option"
| GetCourses "jsstring option"
| PostCourses doc
| PutCourse jsstring doc
| DeleteCourse jsstring
| GetRoot

fun handle :: "libs \<Rightarrow> ambient \<Rightarrow> request \<Rightarrow> world \<Rightarrow> response \<times> world" where
  "handle L a (PostRegister n e p pw) w = register L a w n e p pw"
| "handle L a (PostLogin e pw) w = login L a w e pw"
| "handle L a (PostGoogleLogin n e p) w = googleLogin a w n e p"
| "handle L a (GetCourses category) w = listCourses w category"
| "handle L a (PostCourses b) w = createCourse L a w b"
| "handle L a (PutCourse ident b) w = updateCourse L w ident b"
| "handle L a (DeleteCourse ident) w = deleteCourse L w ident"
| "handle L a GetRoot w = health w"

text \<open>Requests served one after the other, each with what it draws from its surroundings.\<close>

fun serve :: "libs \<Rightarrow> (ambient \<times> request) list \<Rightarrow> world \<Rightarrow> world" where
  "serve L [] w = w"
| "serve L ((a, r) # rs) w = serve L rs (snd (handle L a r w))"

section \<open>Properties of the libraries and of the store\<close>

text \<open>
  What bcrypt reads of a password: \<open>_hash\<close> appends a NUL to the password, and the key
  schedule (\<open>_streamtoword\<close>) reads 18 words of 4 bytes from it, going back to the first
  byte whenever it passes the last, 72 bytes in all. For an ASCII password the bytes are
  its code units.
\<close>

fun key_stream :: "nat \<Rightarrow> jsstring \<Rightarrow> nat \<Rightarrow> jsstring" where
  "key_stream 0 k offp = []"
| "key_stream (Suc n) k offp = (k ! offp) # key_stream n k ((offp + 1) mod length k)"

definition bcrypt_key :: "jsstring \<Rightarrow> jsstring" where
  "bcrypt_key s = key_stream 72 (s @ [0]) 0"

definition ascii :: "jsstring \<Rightarrow> bool" where
  "ascii s = list_all (\<lambda>c. c < 0x80) s"

text \<open>
  What the credential service has from bcrypt. A password verifies against a hash made
  from it; and, the hash being computed from the salt and the key alone, so does every
  ASCII password with the key of an ASCII original. Nothing is said of a password with
  another key.
\<close>

definition bcrypt_sound :: "libs \<Rightarrow> bool" where
  "bcrypt_sound L \<longleftrightarrow>
     (\<forall>s p. bcrypt_compare L p (bcrypt_hash L s p))
     \<and> (\<forall>s p q. ascii p \<and> ascii q \<and> bcrypt_key q = bcrypt_key p
           \<longrightarrow> bcrypt_compare L q (bcrypt_hash L s p))"

text \<open>At most one user record per email.\<close>

definition users_unique :: "world \<Rightarrow> bool" where
  "users_unique w \<longleftrightarrow> distinct (map email (usersCollection w))"

text \<open>The store's own constraint on a collection: \<open>_id\<close> is unique.\<close>

definition ids_unique :: "world \<Rightarrow> bool" where
  "ids_unique w \<longleftrightarrow> distinct (map course_id (coursesCollection w))"

section \<open>An instance of the libraries\<close>

text \<open>
  A 24-digit hexadecimal identifier, as \<open>ObjectId\<close> reads it; a hash that keeps the
  password behind a fixed prefix; an image host that answers one URL.
\<close>

definition hex_digit :: "jschar \<Rightarrow> nat option" where
  "hex_digit c =
     (if 0x30 \<le> c \<and> c \<le> 0x39 then Some (unat c - 0x30)
      else if 0x61 \<le> c \<and> c \<le> 0x66 then Some (unat c - 0x61 + 10)
      else if 0x41 \<le> c \<and> c \<le> 0x46 then Some (unat c - 0x41 + 10)
      else None)"

fun hex_value :: "nat \<Rightarrow> jsstring \<Rightarrow> nat option" where
  "hex_value acc [] = Some acc"
| "hex_value acc (c # cs) =
     (case hex_digit c of None \<Rightarrow> None | Some d \<Rightarrow> hex_value (16 * acc + d) cs)"

definition hex24 :: "jsstring \<Rightarrow> oid option" where
  "hex24 s = (if length s = 24 then map_option of_nat (hex_value 0 s) else None)"

definition plain_libs :: libs where
  "plain_libs =
     \<lparr>bcrypt_hash = (\<lambda>s p. lit ''$2b$10$'' @ p),
      bcrypt_compare = (\<lambda>q h. h = lit ''$2b$10$'' @ q),
      ObjectId = hex24,
      uploadToImgBB = (\<lambda>img. Some (lit ''https://i.ibb.co/c.png''))\<rparr>"

text \<open>The same instance with a hash that keeps the key bcrypt reads behind the prefix.\<close>

definition keyed_libs :: libs where
  "keyed_libs =
     plain_libs\<lparr>bcrypt_hash := (\<lambda>s p. lit ''$2b$10$'' @ bcrypt_key p),
       bcrypt_compare := (\<lambda>q h. h = lit ''$2b$10$'' @ bcrypt_key q)\<rparr>"

definition empty_world :: world where
  "empty_world = \<lparr>usersCollection = [], coursesCollection = [], imgbb_calls = []\<rparr>"

definition at_time :: "int \<Rightarrow> ambient" where
  "at_time t = \<lparr>now = t, fresh_salt = 0, fresh_id = 1\<rparr>"

section \<open>Example worlds\<close>

definition ann_registered :: world where
  "ann_registered =
     \<lparr>usersCollection =
        [\<lparr>name = lit ''Ann'', email = lit ''ann@example.org'', photoURL = None,
          password = Some (lit ''$2b$10$Abcdef''), fromGoogle = False\<rparr>],
      coursesCollection = [], imgbb_calls = []\<rparr>"

definition ann_keyed :: world where
  "ann_keyed =
     \<lparr>usersCollection =
        [\<lparr>name = lit ''Ann'', email = lit ''ann@example.org'', photoURL = None,
          password = Some (lit ''$2b$10$'' @ bcrypt_key (lit ''Abcdef'')), fromGoogle = False\<rparr>],
      coursesCollection = [], imgbb_calls = []\<rparr>"

definition ann_google :: world where
  "ann_google =
     \<lparr>usersCollection =
        [\<lparr>name = lit ''Ann'', email = lit ''ann@example.org'', photoURL = None,
          password = None, fromGoogle = True\<rparr>],
      coursesCollection = [], imgbb_calls = []\<rparr>"

definition math_course :: course where
  "math_course = \<lparr>course_id = 1, course_fields = [Category \<mapsto> JStr (lit ''math'')]\<rparr>"

definition art_course :: course where
  "art_course = \<lparr>course_id = 2, course_fields = [Category \<mapsto> JStr (lit ''art'')]\<rparr>"

definition two_courses :: world where
  "two_courses =
     \<lparr>usersCollection = [], coursesCollection = [math_course, art_course], imgbb_calls = []\<rparr>"

text \<open>A body of \<open>POST /courses\<close> that has all six fields, with the price 0.\<close>

definition free_course_body :: doc where
  "free_course_body =
     [Title \<mapsto> JStr (lit ''Algebra''), Description \<mapsto> JStr (lit ''Groups and rings''),
      Category \<mapsto> JStr (lit ''math''), Price \<mapsto> JNum 0, Instructor \<mapsto> JStr (lit ''Emmy''),
      ImageBase64 \<mapsto> JStr (lit ''iVBORw0KGgo='')]"

text \<open>The two courses after a price is set on the second, and after the second is deleted.\<close>

definition art_priced :: world where
  "art_priced =
     two_courses\<lparr>coursesCollection :=
       [math_course, art_course\<lparr>course_fields := course_fields art_course ++ [Price \<mapsto> JNum 25]\<rparr>]\<rparr>"

definition math_only :: world where
  "math_only = two_courses\<lparr>coursesCollection := [math_course]\<rparr>"

section \<open>Lookups in the users collection\<close>

lemma findOne_append:
  "findOne e (us @ vs) = (case findOne e us of None \<Rightarrow> findOne e vs | Some u \<Rightarrow> Some u)"
  by (induction us) (simp_all add: findOne_def)

lemma findOne_None_iff: "findOne e us = None \<longleftrightarrow> e \<notin> email ` set us"
  by (induction us) (auto simp: findOne_def)

section \<open>Registration\<close>

lemma register_success:
  assumes "status (fst (register L a w n e p pw)) = 201"
  shows "has_upper pw \<and> has_lower pw \<and> 6 \<le> length pw \<and> findOne e (usersCollection w) = None"
  using assms by (auto simp: register_def split: if_splits option.splits)

lemma register_ok:
  assumes "has_upper pw" "has_lower pw" "6 \<le> length pw" "findOne e (usersCollection w) = None"
  shows "register L a w n e p pw =
     (Response 201 (MessageToken ''Registration successful!'' (jwt_sign e (now a))),
      w\<lparr>usersCollection := usersCollection w @
          [\<lparr>name = n, email = e, photoURL = p,
            password = Some (bcrypt_hash L (fresh_salt a) pw), fromGoogle = False\<rparr>]\<rparr>)"
  using assms by (simp add: register_def insertUser_def)

lemma register_ann:
  "register plain_libs (at_time 0) empty_world (lit ''Ann'') (lit ''ann@example.org'') None
     (lit ''Abcdef'') =
   (Response 201 (MessageToken ''Registration successful!''
      (Token (lit ''ann@example.org'') 0 604800)), ann_registered)"
  by (simp add: register_def has_upper_def has_lower_def lit_def findOne_def empty_world_def
      plain_libs_def at_time_def insertUser_def jwt_sign_def ann_registered_def)

text \<open>
  C1. A password without an uppercase letter gets the uppercase message, whatever else is
  wrong with it; one with an uppercase but no lowercase letter gets the lowercase message,
  whatever its length; the length message is left for a password that has both. In each
  case nothing is stored.
\<close>

theorem register_policy_order:
  "(\<not> has_upper pw \<longrightarrow>
      register L a w n e p pw =
        (Response 400 (Message ''Password must include at least one uppercase letter.''), w))
   \<and> (has_upper pw \<and> \<not> has_lower pw \<longrightarrow>
      register L a w n e p pw =
        (Response 400 (Message ''Password must include at least one lowercase letter.''), w))
   \<and> (has_upper pw \<and> has_lower pw \<and> length pw < 6 \<longrightarrow>
      register L a w n e p pw =
        (Response 400 (Message ''Password must be at least 6 characters long.''), w))"
  by (simp add: register_def)

theorem register_policy_order_witness:
  "\<not> has_upper (lit ''abc'')
   \<and> register plain_libs (at_time 0) empty_world (lit ''Ann'') (lit ''ann@example.org'') None
        (lit ''abc'') =
       (Response 400 (Message ''Password must include at least one uppercase letter.''),
        empty_world)
   \<and> has_upper (lit ''ABC'') \<and> \<not> has_lower (lit ''ABC'')
   \<and> register plain_libs (at_time 0) empty_world (lit ''Ann'') (lit ''ann@example.org'') None
        (lit ''ABC'') =
       (Response 400 (Message ''Password must include at least one lowercase letter.''),
        empty_world)
   \<and> has_upper (lit ''Ab'') \<and> has_lower (lit ''Ab'') \<and> length (lit ''Ab'') < 6
   \<and> register plain_libs (at_time 0) empty_world (lit ''Ann'') (lit ''ann@example.org'') None
        (lit ''Ab'') =
       (Response 400 (Message ''Password must be at least 6 characters long.''), empty_world)"
proof -
  have 1: "\<not> has_upper (lit ''abc'')"
    by (simp add: has_upper_def lit_def)
  have 2: "has_upper (lit ''ABC'') \<and> \<not> has_lower (lit ''ABC'')"
    by (simp add: has_upper_def has_lower_def lit_def)
  have 3: "has_upper (lit ''Ab'') \<and> has_lower (lit ''Ab'') \<and> length (lit ''Ab'') < 6"
    by (simp add: has_upper_def has_lower_def lit_def)
  show ?thesis
    using 1 2 3
      register_policy_order [of "lit ''abc''" plain_libs "at_time 0" empty_world "lit ''Ann''"
         "lit ''ann@example.org''" None]
      register_policy_order [of "lit ''ABC''" plain_libs "at_time 0" empty_world "lit ''Ann''"
         "lit ''ann@example.org''" None]
      register_policy_order [of "lit ''Ab''" plain_libs "at_time 0" empty_world "lit ''Ann''"
         "lit ''ann@example.org''" None]
    by blast
qed

section \<open>Login after registration\<close>

lemma key_stream_nth:
  "offp < length k \<Longrightarrow>
   key_stream n k offp = map (\<lambda>i. k ! ((offp + i) mod length k)) [0..<n]"
proof (induction n arbitrary: offp)
  case 0
  show ?case by simp
next
  case (Suc n)
  have pos: "0 < length k"
    using Suc.prems by (cases k) simp_all
  then have "(offp + 1) mod length k < length k"
    by simp
  then have "key_stream n k ((offp + 1) mod length k) =
      map (\<lambda>i. k ! (((offp + 1) mod length k + i) mod length k)) [0..<n]"
    by (rule Suc.IH)
  also have "\<dots> = map (\<lambda>i. k ! ((offp + Suc i) mod length k)) [0..<n]"
    by (simp add: mod_add_left_eq)
  finally have rest: "key_stream n k ((offp + 1) mod length k) =
      map ((\<lambda>i. k ! ((offp + i) mod length k)) \<circ> Suc) [0..<n]"
    by (simp add: comp_def)
  have "[0..<Suc n] = 0 # map Suc [0..<n]"
    by (simp add: upt_conv_Cons map_Suc_upt del: upt_Suc)
  then have "map (\<lambda>i. k ! ((offp + i) mod length k)) [0..<Suc n] =
      k ! (offp mod length k) # map ((\<lambda>i. k ! ((offp + i) mod length k)) \<circ> Suc) [0..<n]"
    by (simp del: upt_Suc)
  with rest Suc.prems show ?case
    by simp
qed

lemma bcrypt_key_long: "72 \<le> length s \<Longrightarrow> bcrypt_key s = take 72 s"
proof -
  assume len: "72 \<le> length s"
  have "bcrypt_key s = map (\<lambda>i. (s @ [0]) ! (i mod length (s @ [0]))) [0..<72]"
    by (simp add: bcrypt_key_def key_stream_nth)
  also have "\<dots> = map (\<lambda>i. s ! i) [0..<72]"
    using len by (intro map_cong refl) (simp add: nth_append)
  also have "\<dots> = take 72 (map (\<lambda>i. s ! i) [0..<length s])"
    using len by (simp add: take_map)
  also have "\<dots> = take 72 s"
    by (simp add: map_nth)
  finally show ?thesis .
qed

lemma bcrypt_key_same_prefix:
  assumes "72 \<le> length p" and "72 \<le> length q" and "take 72 q = take 72 p"
  shows "bcrypt_key q = bcrypt_key p"
  using assms by (simp add: bcrypt_key_long)

lemma register_ann_keyed:
  "register keyed_libs (at_time 0) empty_world (lit ''Ann'') (lit ''ann@example.org'') None
     (lit ''Abcdef'') =
   (Response 201 (MessageToken ''Registration successful!''
      (Token (lit ''ann@example.org'') 0 604800)), ann_keyed)"
  by (simp add: register_def has_upper_def has_lower_def lit_def findOne_def empty_world_def
      keyed_libs_def plain_libs_def at_time_def insertUser_def jwt_sign_def ann_keyed_def)

lemma same_key: "bcrypt_key (lit ''Abcdef'' @ 0 # lit ''Abcdef'') = bcrypt_key (lit ''Abcdef'')"
  by code_simp

lemma other_key: "bcrypt_key (lit ''Abcdeg'') \<noteq> bcrypt_key (lit ''Abcdef'')"
  by code_simp

lemma bcrypt_sound_keyed: "bcrypt_sound keyed_libs"
  by (simp add: bcrypt_sound_def keyed_libs_def)

text \<open>
  C2, as stated, after a registration with the password \<open>Abcdef\<close>, at the password
  made of \<open>Abcdef\<close>, a NUL and \<open>Abcdef\<close> again: the two differ and have the same key
  (\<open>Abcdef\<close> and a NUL, repeated), and the login answers 200 with a token.
\<close>

theorem login_other_password_accepted:
  "register keyed_libs (at_time 0) empty_world (lit ''Ann'') (lit ''ann@example.org'') None
     (lit ''Abcdef'') =
     (Response 201 (MessageToken ''Registration successful!''
        (Token (lit ''ann@example.org'') 0 604800)), ann_keyed)
   \<and> lit ''Abcdef'' @ 0 # lit ''Abcdef'' \<noteq> lit ''Abcdef''
   \<and> login keyed_libs (at_time 9000) ann_keyed (lit ''ann@example.org'')
       (lit ''Abcdef'' @ 0 # lit ''Abcdef'') =
     (Response 200 (MessageToken ''Login successful!''
        (Token (lit ''ann@example.org'') 9 604809)), ann_keyed)"
proof -
  have d: "lit ''Abcdef'' @ 0 # lit ''Abcdef'' \<noteq> lit ''Abcdef''"
    by (simp add: lit_def)
  have "login keyed_libs (at_time 9000) ann_keyed (lit ''ann@example.org'')
       (lit ''Abcdef'' @ 0 # lit ''Abcdef'') =
     (Response 200 (MessageToken ''Login successful!''
        (Token (lit ''ann@example.org'') 9 604809)), ann_keyed)"
    by (simp add: login_def findOne_def ann_keyed_def keyed_libs_def same_key jwt_sign_def
        at_time_def)
  with d register_ann_keyed show ?thesis
    by simp
qed

text \<open>
  C2, amended. After a registration that succeeded (status 201), a login with the same
  email and the same password answers 200 with a token. A login with that email and any
  password answers 200 with a token when \<open>bcrypt.compare\<close> accepts the password against
  the stored hash and 400 ``Incorrect password.'' when it does not; it is accepted, for an
  ASCII original, when it is an ASCII password with the same key. No login changes the
  world.
\<close>

theorem login_after_register:
  assumes "bcrypt_sound L"
    and "register L a w n e p pw = (r, w1)"
    and "status r = 201"
  shows "login L a' w1 e pw =
           (Response 200 (MessageToken ''Login successful!'' (jwt_sign e (now a'))), w1)
         \<and> (\<forall>q. login L a' w1 e q =
              (if bcrypt_compare L q (bcrypt_hash L (fresh_salt a) pw)
               then (Response 200 (MessageToken ''Login successful!'' (jwt_sign e (now a'))), w1)
               else (Response 400 (Message ''Incorrect password.''), w1)))
         \<and> (\<forall>q. ascii pw \<and> ascii q \<and> bcrypt_key q = bcrypt_key pw \<longrightarrow>
              login L a' w1 e q =
                (Response 200 (MessageToken ''Login successful!'' (jwt_sign e (now a'))), w1))"
proof -
  let ?u = "\<lparr>name = n, email = e, photoURL = p,
             password = Some (bcrypt_hash L (fresh_salt a) pw), fromGoogle = False\<rparr>"
  from assms(2,3) have ok: "has_upper pw \<and> has_lower pw \<and> 6 \<le> length pw
      \<and> findOne e (usersCollection w) = None"
    using register_success [of L a w n e p pw] by simp
  then have "register L a w n e p pw =
      (Response 201 (MessageToken ''Registration successful!'' (jwt_sign e (now a))),
       w\<lparr>usersCollection := usersCollection w @ [?u]\<rparr>)"
    by (simp add: register_ok)
  with assms(2) have w1: "w1 = w\<lparr>usersCollection := usersCollection w @ [?u]\<rparr>"
    by simp
  have found: "findOne e (usersCollection w1) = Some ?u"
    using ok by (simp add: w1 findOne_append) (simp add: findOne_def)
  have own: "bcrypt_compare L pw (bcrypt_hash L (fresh_salt a) pw)"
    using assms(1) by (simp add: bcrypt_sound_def)
  have key: "bcrypt_compare L q (bcrypt_hash L (fresh_salt a) pw)"
    if "ascii pw \<and> ascii q \<and> bcrypt_key q = bcrypt_key pw" for q
    using assms(1) that unfolding bcrypt_sound_def by blast
  have branch: "login L a' w1 e q =
      (if bcrypt_compare L q (bcrypt_hash L (fresh_salt a) pw)
       then (Response 200 (MessageToken ''Login successful!'' (jwt_sign e (now a'))), w1)
       else (Response 400 (Message ''Incorrect password.''), w1))" for q
    by (simp add: login_def found)
  show ?thesis
    using own key branch by simp
qed

theorem login_after_register_witness:
  "bcrypt_sound keyed_libs
   \<and> register keyed_libs (at_time 0) empty_world (lit ''Ann'') (lit ''ann@example.org'') None
       (lit ''Abcdef'') =
       (Response 201 (MessageToken ''Registration successful!''
          (Token (lit ''ann@example.org'') 0 604800)), ann_keyed)
   \<and> login keyed_libs (at_time 9000) ann_keyed (lit ''ann@example.org'') (lit ''Abcdef'') =
       (Response 200 (MessageToken ''Login successful!''
          (jwt_sign (lit ''ann@example.org'') (now (at_time 9000)))), ann_keyed)
   \<and> login keyed_libs (at_time 9000) ann_keyed (lit ''ann@example.org'') (lit ''Abcdeg'') =
       (Response 400 (Message ''Incorrect password.''), ann_keyed)
   \<and> ascii (lit ''Abcdef'') \<and> ascii (lit ''Abcdef'' @ 0 # lit ''Abcdef'')
   \<and> bcrypt_key (lit ''Abcdef'' @ 0 # lit ''Abcdef'') = bcrypt_key (lit ''Abcdef'')
   \<and> login keyed_libs (at_time 9000) ann_keyed (lit ''ann@example.org'')
       (lit ''Abcdef'' @ 0 # lit ''Abcdef'') =
       (Response 200 (MessageToken ''Login successful!''
          (jwt_sign (lit ''ann@example.org'') (now (at_time 9000)))), ann_keyed)"
proof -
  have s: "status (Response 201 (MessageToken ''Registration successful!''
          (Token (lit ''ann@example.org'') 0 604800))) = 201"
    by simp
  have a: "ascii (lit ''Abcdef'')" "ascii (lit ''Abcdef'' @ 0 # lit ''Abcdef'')"
    by (simp_all add: ascii_def lit_def)
  have rej: "\<not> bcrypt_compare keyed_libs (lit ''Abcdeg'')
      (bcrypt_hash keyed_libs (fresh_salt (at_time 0)) (lit ''Abcdef''))"
    using other_key by (simp add: keyed_libs_def)
  note t = login_after_register [OF bcrypt_sound_keyed register_ann_keyed s, of "at_time 9000"]
  from t have 1: "login keyed_libs (at_time 9000) ann_keyed (lit ''ann@example.org'')
      (lit ''Abcdef'') =
       (Response 200 (MessageToken ''Login successful!''
          (jwt_sign (lit ''ann@example.org'') (now (at_time 9000)))), ann_keyed)"
    by blast
  from t rej have 2: "login keyed_libs (at_time 9000) ann_keyed (lit ''ann@example.org'')
      (lit ''Abcdeg'') = (Response 400 (Message ''Incorrect password.''), ann_keyed)"
    by metis
  from t a same_key have 3: "login keyed_libs (at_time 9000) ann_keyed (lit ''ann@example.org'')
       (lit ''Abcdef'' @ 0 # lit ''Abcdef'') =
       (Response 200 (MessageToken ''Login successful!''
          (jwt_sign (lit ''ann@example.org'') (now (at_time 9000)))), ann_keyed)"
    by blast
  show ?thesis
    using bcrypt_sound_keyed register_ann_keyed 1 2 3 a same_key by blast
qed

section \<open>Duplicate registration\<close>

text \<open>
  C3. From a world that does not hold the email, two registrations with that email, each
  with a password that meets the policy: the first answers 201 with the message and a
  token, the second answers 400 ``User already exists. Please log in.'' and leaves the
  world as the first call left it.
\<close>

theorem register_twice:
  assumes "e \<notin> email ` set (usersCollection w)"
    and "has_upper pw1 \<and> has_lower pw1 \<and> 6 \<le> length pw1"
    and "has_upper pw2 \<and> has_lower pw2 \<and> 6 \<le> length pw2"
    and "register L a1 w n1 e p1 pw1 = (r1, w1)"
    and "register L a2 w1 n2 e p2 pw2 = (r2, w2)"
  shows "r1 = Response 201 (MessageToken ''Registration successful!'' (jwt_sign e (now a1)))
       \<and> r2 = Response 400 (Message ''User already exists. Please log in.'')
       \<and> w2 = w1"
proof -
  have none: "findOne e (usersCollection w) = None"
    using assms(1) by (simp add: findOne_None_iff)
  from assms(2) none assms(4)
  have r1: "r1 = Response 201 (MessageToken ''Registration successful!'' (jwt_sign e (now a1)))"
    and w1: "w1 = w\<lparr>usersCollection := usersCollection w @
          [\<lparr>name = n1, email = e, photoURL = p1,
            password = Some (bcrypt_hash L (fresh_salt a1) pw1), fromGoogle = False\<rparr>]\<rparr>"
    by (simp_all add: register_ok)
  have "findOne e (usersCollection w1) \<noteq> None"
    by (simp add: w1 findOne_None_iff)
  then obtain u where "findOne e (usersCollection w1) = Some u"
    by blast
  with assms(3,5)
  have "r2 = Response 400 (Message ''User already exists. Please log in.'') \<and> w2 = w1"
    by (auto simp: register_def)
  with r1 show ?thesis by simp
qed

theorem register_twice_witness:
  "lit ''ann@example.org'' \<notin> email ` set (usersCollection empty_world)
   \<and> (has_upper (lit ''Abcdef'') \<and> has_lower (lit ''Abcdef'') \<and> 6 \<le> length (lit ''Abcdef''))
   \<and> (has_upper (lit ''Zyxwvu9'') \<and> has_lower (lit ''Zyxwvu9'') \<and> 6 \<le> length (lit ''Zyxwvu9''))
   \<and> register plain_libs (at_time 0) empty_world (lit ''Ann'') (lit ''ann@example.org'') None
       (lit ''Abcdef'') =
       (Response 201 (MessageToken ''Registration successful!''
          (Token (lit ''ann@example.org'') 0 604800)), ann_registered)
   \<and> register plain_libs (at_time 9000) ann_registered (lit ''Bob'') (lit ''ann@example.org'') None
       (lit ''Zyxwvu9'') =
       (Response 400 (Message ''User already exists. Please log in.''), ann_registered)"
proof -
  obtain r2 w2 where second:
    "register plain_libs (at_time 9000) ann_registered (lit ''Bob'') (lit ''ann@example.org'') None
       (lit ''Zyxwvu9'') = (r2, w2)"
    by (cases "register plain_libs (at_time 9000) ann_registered (lit ''Bob'')
       (lit ''ann@example.org'') None (lit ''Zyxwvu9'')")
  have fresh: "lit ''ann@example.org'' \<notin> email ` set (usersCollection empty_world)"
    by (simp add: empty_world_def)
  have p1: "has_upper (lit ''Abcdef'') \<and> has_lower (lit ''Abcdef'') \<and> 6 \<le> length (lit ''Abcdef'')"
    by (simp add: has_upper_def has_lower_def lit_def)
  have p2: "has_upper (lit ''Zyxwvu9'') \<and> has_lower (lit ''Zyxwvu9'')
      \<and> 6 \<le> length (lit ''Zyxwvu9'')"
    by (simp add: has_upper_def has_lower_def lit_def)
  from register_twice [OF fresh p1 p2 register_ann second]
  have "r2 = Response 400 (Message ''User already exists. Please log in.'') \<and> w2 = ann_registered"
    by simp
  with second fresh p1 p2 register_ann show ?thesis
    by simp
qed

section \<open>Federated login\<close>

lemma google_ann_first:
  "googleLogin (at_time 0) empty_world (lit ''Ann'') (lit ''ann@example.org'') None =
     (Response 200 (MessageToken ''Google login successful!''
        (Token (lit ''ann@example.org'') 0 604800)), ann_google)"
  by (simp add: googleLogin_def findOne_def empty_world_def at_time_def insertUser_def
      jwt_sign_def ann_google_def)

lemma google_ann_second:
  "googleLogin (at_time 9000) ann_google (lit ''Ann B.'') (lit ''ann@example.org'') None =
     (Response 200 (MessageToken ''Google login successful!''
        (Token (lit ''ann@example.org'') 9 604809)), ann_google)"
  by (simp add: googleLogin_def findOne_def at_time_def jwt_sign_def ann_google_def)

text \<open>
  C4. From a world that does not hold the email, two \<open>googleLogin\<close> calls with that email:
  the first appends one user record, marked \<open>fromGoogle\<close> and without a password; the
  second leaves the world as it is, so the world holds exactly one record with the
  email; both answer 200 with a token whose email claim is the email given.
\<close>

theorem googleLogin_idempotent:
  assumes "e \<notin> email ` set (usersCollection w)"
    and "googleLogin a1 w n1 e p1 = (r1, w1)"
    and "googleLogin a2 w1 n2 e p2 = (r2, w2)"
  shows "usersCollection w1 = usersCollection w @
           [\<lparr>name = n1, email = e, photoURL = p1, password = None, fromGoogle = True\<rparr>]
       \<and> w2 = w1
       \<and> length (filter (\<lambda>u. email u = e) (usersCollection w2)) = 1
       \<and> (\<exists>t1 t2. r1 = Response 200 (MessageToken ''Google login successful!'' t1)
            \<and> r2 = Response 200 (MessageToken ''Google login successful!'' t2)
            \<and> claim_email t1 = e \<and> claim_email t2 = e)"
proof -
  have none: "findOne e (usersCollection w) = None"
    using assms(1) by (simp add: findOne_None_iff)
  from assms(2) none
  have r1: "r1 = Response 200 (MessageToken ''Google login successful!'' (jwt_sign e (now a1)))"
    and w1: "w1 = w\<lparr>usersCollection := usersCollection w @
           [\<lparr>name = n1, email = e, photoURL = p1, password = None, fromGoogle = True\<rparr>]\<rparr>"
    by (auto simp: googleLogin_def insertUser_def)
  have "findOne e (usersCollection w1) \<noteq> None"
    by (simp add: w1 findOne_None_iff)
  then obtain u where "findOne e (usersCollection w1) = Some u"
    by blast
  with assms(3)
  have r2: "r2 = Response 200 (MessageToken ''Google login successful!'' (jwt_sign e (now a2)))"
    and w2: "w2 = w1"
    by (auto simp: googleLogin_def)
  have "filter (\<lambda>u. email u = e) (usersCollection w) = []"
    using assms(1) by (auto simp: filter_empty_conv)
  then have one: "length (filter (\<lambda>u. email u = e) (usersCollection w2)) = 1"
    by (simp add: w2 w1)
  show ?thesis
    using r1 r2 w1 w2 one by (simp add: jwt_sign_def)
qed

theorem googleLogin_idempotent_witness:
  "lit ''ann@example.org'' \<notin> email ` set (usersCollection empty_world)
   \<and> googleLogin (at_time 0) empty_world (lit ''Ann'') (lit ''ann@example.org'') None =
       (Response 200 (MessageToken ''Google login successful!''
          (Token (lit ''ann@example.org'') 0 604800)), ann_google)
   \<and> googleLogin (at_time 9000) ann_google (lit ''Ann B.'') (lit ''ann@example.org'') None =
       (Response 200 (MessageToken ''Google login successful!''
          (Token (lit ''ann@example.org'') 9 604809)), ann_google)
   \<and> length (filter (\<lambda>u. email u = lit ''ann@example.org'') (usersCollection ann_google)) = 1"
proof -
  have fresh: "lit ''ann@example.org'' \<notin> email ` set (usersCollection empty_world)"
    by (simp add: empty_world_def)
  from googleLogin_idempotent [OF fresh google_ann_first google_ann_second]
  have "length (filter (\<lambda>u. email u = lit ''ann@example.org'') (usersCollection ann_google)) = 1"
    by blast
  with fresh google_ann_first google_ann_second show ?thesis
    by blast
qed

section \<open>Invariant of the users collection\<close>

lemma register_users:
  "usersCollection (snd (register L a w n e p pw)) = usersCollection w
   \<or> (e \<notin> email ` set (usersCollection w)
      \<and> (\<exists>u. email u = e
            \<and> usersCollection (snd (register L a w n e p pw)) = usersCollection w @ [u]))"
  by (auto simp: register_def insertUser_def findOne_None_iff split: option.splits)

lemma googleLogin_users:
  "usersCollection (snd (googleLogin a w n e p)) = usersCollection w
   \<or> (e \<notin> email ` set (usersCollection w)
      \<and> (\<exists>u. email u = e
            \<and> usersCollection (snd (googleLogin a w n e p)) = usersCollection w @ [u]))"
  by (auto simp: googleLogin_def insertUser_def findOne_None_iff split: option.splits)

lemma handle_users:
  "usersCollection (snd (handle L a r w)) = usersCollection w
   \<or> (\<exists>u. email u \<notin> email ` set (usersCollection w)
        \<and> usersCollection (snd (handle L a r w)) = usersCollection w @ [u])"
proof (cases r)
  case (PostRegister n e p pw)
  then show ?thesis using register_users [of L a w n e p pw] by auto
next
  case (PostLogin e pw)
  then show ?thesis by (simp add: login_def split: option.splits)
next
  case (PostGoogleLogin n e p)
  then show ?thesis using googleLogin_users [of a w n e p] by auto
next
  case (GetCourses c)
  then show ?thesis by (simp add: listCourses_def)
next
  case (PostCourses b)
  then show ?thesis by (simp add: createCourse_def Let_def split: option.splits)
next
  case (PutCourse i b)
  then show ?thesis by (simp add: updateCourse_def split: option.splits)
next
  case (DeleteCourse i)
  then show ?thesis by (simp add: deleteCourse_def split: option.splits)
next
  case GetRoot
  then show ?thesis by (simp add: health_def)
qed

lemma handle_users_unique:
  "users_unique w \<Longrightarrow> users_unique (snd (handle L a r w))"
  using handle_users [of L a r w] by (auto simp: users_unique_def)

lemma handle_users_prefix:
  "prefix (usersCollection w) (usersCollection (snd (handle L a r w)))"
  using handle_users [of L a r w] by auto

text \<open>
  C5. Whatever requests are served one after the other, the users collection only grows
  at its end: no record in it is changed or removed. If no two of its records share an
  email before, none do after.
\<close>

theorem users_unique_preserved:
  "(users_unique w \<longrightarrow> users_unique (serve L rs w))
   \<and> prefix (usersCollection w) (usersCollection (serve L rs w))"
proof (induction rs arbitrary: w)
  case Nil
  show ?case by simp
next
  case (Cons ar rs)
  obtain a r where ar: "ar = (a, r)" by (cases ar)
  let ?w = "snd (handle L a r w)"
  have "users_unique w \<longrightarrow> users_unique ?w"
    by (simp add: handle_users_unique)
  moreover have "prefix (usersCollection w) (usersCollection ?w)"
    by (rule handle_users_prefix)
  ultimately show ?case
    using Cons.IH [of ?w] by (auto simp: ar intro: prefix_order.trans)
qed

lemma serve_ann:
  "serve plain_libs
     [(at_time 0, PostRegister (lit ''Ann'') (lit ''ann@example.org'') None (lit ''Abcdef'')),
      (at_time 9000, PostGoogleLogin (lit ''Ann B.'') (lit ''ann@example.org'') None),
      (at_time 9500, PostLogin (lit ''ann@example.org'') (lit ''Abcdef''))]
     empty_world = ann_registered"
  by (simp add: register_ann googleLogin_def login_def findOne_def ann_registered_def)

theorem users_unique_preserved_witness:
  "users_unique empty_world
   \<and> serve plain_libs
     [(at_time 0, PostRegister (lit ''Ann'') (lit ''ann@example.org'') None (lit ''Abcdef'')),
      (at_time 9000, PostGoogleLogin (lit ''Ann B.'') (lit ''ann@example.org'') None),
      (at_time 9500, PostLogin (lit ''ann@example.org'') (lit ''Abcdef''))]
     empty_world = ann_registered
   \<and> users_unique ann_registered
   \<and> prefix (usersCollection empty_world) (usersCollection ann_registered)"
proof -
  have u: "users_unique empty_world"
    by (simp add: users_unique_def empty_world_def)
  show ?thesis
    using u serve_ann
      users_unique_preserved [of empty_world plain_libs
        "[(at_time 0, PostRegister (lit ''Ann'') (lit ''ann@example.org'') None (lit ''Abcdef'')),
          (at_time 9000, PostGoogleLogin (lit ''Ann B.'') (lit ''ann@example.org'') None),
          (at_time 9500, PostLogin (lit ''ann@example.org'') (lit ''Abcdef''))]"]
    by simp
qed

section \<open>Listing courses\<close>

text \<open>
  C6, as stated, at the filter \<open>""\<close> (the request \<open>GET /courses?category=\<close>): the empty
  string is falsy, the query is \<open>{}\<close>, and both courses come back although neither has
  the category \<open>""\<close>.
\<close>

theorem listCourses_empty_filter:
  "listCourses two_courses (Some []) = (Response 200 (Courses [math_course, art_course]), two_courses)
   \<and> course_fields math_course Category \<noteq> Some (JStr [])
   \<and> course_fields art_course Category \<noteq> Some (JStr [])"
  by (simp add: listCourses_def find_courses_def two_courses_def math_course_def art_course_def
      lit_def)

text \<open>
  C6, amended. With a non-empty category filter \<open>listCourses\<close> returns exactly the
  courses whose \<open>category\<close> is that string, in the order of the store; with the empty
  string as filter, or with none, it returns all courses. The world is unchanged.
\<close>

theorem listCourses_filter:
  "(c \<noteq> [] \<longrightarrow>
      listCourses w (Some c) =
        (Response 200
           (Courses (filter (\<lambda>d. course_fields d Category = Some (JStr c)) (coursesCollection w))),
         w))
   \<and> listCourses w (Some []) = (Response 200 (Courses (coursesCollection w)), w)
   \<and> listCourses w None = (Response 200 (Courses (coursesCollection w)), w)"
  by (simp add: listCourses_def find_courses_def)

theorem listCourses_filter_witness:
  "lit ''math'' \<noteq> []
   \<and> listCourses two_courses (Some (lit ''math'')) =
       (Response 200 (Courses [math_course]), two_courses)
   \<and> listCourses two_courses None =
       (Response 200 (Courses [math_course, art_course]), two_courses)"
proof -
  have ne: "lit ''math'' \<noteq> []"
    by (simp add: lit_def)
  have f: "filter (\<lambda>d. course_fields d Category = Some (JStr (lit ''math'')))
             (coursesCollection two_courses) = [math_course]"
    by (simp add: two_courses_def math_course_def art_course_def lit_def)
  have a: "coursesCollection two_courses = [math_course, art_course]"
    by (simp add: two_courses_def)
  show ?thesis
    using ne listCourses_filter [of "lit ''math''" two_courses] f a by simp
qed

section \<open>Creating a course\<close>

lemma createCourse_rejects:
  assumes "f \<in> {Title, Description, Category, Price, Instructor, ImageBase64}"
    and "\<not> truthy (b f)"
  shows "createCourse L a w b = (Response 400 (Message ''All fields are required!''), w)"
  using assms by (auto simp: createCourse_def)

lemma createCourse_ok:
  assumes "\<forall>f \<in> {Title, Description, Category, Price, Instructor, ImageBase64}. truthy (b f)"
    and "uploadToImgBB L (b ImageBase64) = Some url"
    and "fresh_id a \<notin> course_id ` set (coursesCollection w)"
  shows "createCourse L a w b =
     (Response 201 (MessageCourse ''Course added successfully!''
        \<lparr>course_id = fresh_id a,
         course_fields = (b |` {Title, Description, Category, Price, Instructor})
            (Image \<mapsto> JStr url, CreatedAt \<mapsto> JDate (now a))\<rparr>),
      w\<lparr>coursesCollection := coursesCollection w @
           [\<lparr>course_id = fresh_id a,
             course_fields = (b |` {Title, Description, Category, Price, Instructor})
               (Image \<mapsto> JStr url, CreatedAt \<mapsto> JDate (now a))\<rparr>],
         imgbb_calls := imgbb_calls w @ [b ImageBase64]\<rparr>)"
proof -
  have m: "Map.empty(Title := b Title, Description := b Description, Category := b Category,
        Price := b Price, Instructor := b Instructor, Image \<mapsto> JStr url,
        CreatedAt \<mapsto> JDate (now a)) =
      (b |` {Title, Description, Category, Price, Instructor})
         (Image \<mapsto> JStr url, CreatedAt \<mapsto> JDate (now a))"
    by (rule ext) (simp add: restrict_map_def)
  show ?thesis
    using assms by (simp add: createCourse_def insertOne_def m Let_def)
qed

text \<open>
  C7. When one of the six fields \<open>title\<close>, \<open>description\<close>, \<open>category\<close>, \<open>price\<close>,
  \<open>instructor\<close>, \<open>imageBase64\<close> is absent from the body, \<open>createCourse\<close> answers 400
  ``All fields are required!'' and the world is the same: no course is written and no
  payload goes to the image host.
\<close>

theorem createCourse_missing_field:
  assumes "f \<in> {Title, Description, Category, Price, Instructor, ImageBase64}"
    and "b f = None"
  shows "createCourse L a w b = (Response 400 (Message ''All fields are required!''), w)"
  using assms createCourse_rejects [of f b] by simp

theorem createCourse_missing_field_witness:
  "Price \<in> {Title, Description, Category, Price, Instructor, ImageBase64}
   \<and> (free_course_body(Price := None)) Price = None
   \<and> createCourse plain_libs (at_time 0) empty_world (free_course_body(Price := None)) =
       (Response 400 (Message ''All fields are required!''), empty_world)"
proof -
  have 1: "Price \<in> {Title, Description, Category, Price, Instructor, ImageBase64}"
    by simp
  have 2: "(free_course_body(Price := None)) Price = None"
    by simp
  show ?thesis
    using 1 2
      createCourse_missing_field [of Price "free_course_body(Price := None)" plain_libs
        "at_time 0" empty_world]
    by blast
qed

text \<open>
  C10. A body that has all six fields is still answered 400 ``All fields are required!'',
  with the world unchanged, when its price is the number 0 or when one of the six is the
  empty string; and there is such a body, whatever the libraries and the world.
\<close>

theorem createCourse_present_but_falsy:
  "((\<forall>f \<in> {Title, Description, Category, Price, Instructor, ImageBase64}. b f \<noteq> None)
      \<and> (b Price = Some (JNum 0)
          \<or> (\<exists>f \<in> {Title, Description, Category, Price, Instructor, ImageBase64}.
                b f = Some (JStr [])))
     \<longrightarrow> createCourse L a w b = (Response 400 (Message ''All fields are required!''), w))
   \<and> (\<exists>b'. (\<forall>f \<in> {Title, Description, Category, Price, Instructor, ImageBase64}. b' f \<noteq> None)
          \<and> createCourse L a w b' = (Response 400 (Message ''All fields are required!''), w))"
proof -
  have zero: "createCourse L a w b' = (Response 400 (Message ''All fields are required!''), w)"
    if "b' Price = Some (JNum 0)" for b'
    using that createCourse_rejects [of Price b'] by simp
  have empty: "createCourse L a w b' = (Response 400 (Message ''All fields are required!''), w)"
    if "f \<in> {Title, Description, Category, Price, Instructor, ImageBase64}"
      and "b' f = Some (JStr [])" for b' f
    using that createCourse_rejects [of f b'] by simp
  have "\<forall>f \<in> {Title, Description, Category, Price, Instructor, ImageBase64}.
      free_course_body f \<noteq> None"
    by (simp add: free_course_body_def)
  moreover have "free_course_body Price = Some (JNum 0)"
    by (simp add: free_course_body_def)
  ultimately have
    "\<exists>b'. (\<forall>f \<in> {Title, Description, Category, Price, Instructor, ImageBase64}. b' f \<noteq> None)
          \<and> createCourse L a w b' = (Response 400 (Message ''All fields are required!''), w)"
    using zero by blast
  then show ?thesis
    using zero empty by blast
qed

theorem createCourse_present_but_falsy_witness:
  "free_course_body Title \<noteq> None \<and> free_course_body Description \<noteq> None
   \<and> free_course_body Category \<noteq> None \<and> free_course_body Price \<noteq> None
   \<and> free_course_body Instructor \<noteq> None \<and> free_course_body ImageBase64 \<noteq> None
   \<and> free_course_body Price = Some (JNum 0)
   \<and> createCourse plain_libs (at_time 0) empty_world free_course_body =
       (Response 400 (Message ''All fields are required!''), empty_world)"
proof -
  have 1: "\<forall>f \<in> {Title, Description, Category, Price, Instructor, ImageBase64}.
      free_course_body f \<noteq> None"
    by (simp add: free_course_body_def)
  have 2: "free_course_body Price = Some (JNum 0)"
    by (simp add: free_course_body_def)
  have "createCourse plain_libs (at_time 0) empty_world free_course_body =
       (Response 400 (Message ''All fields are required!''), empty_world)"
    using 1 2 createCourse_present_but_falsy [of free_course_body plain_libs "at_time 0" empty_world]
    by blast
  with 1 2 show ?thesis
    by simp
qed

section \<open>Updating and deleting a course\<close>

lemma updateOne_absent: "i \<notin> course_id ` set cs \<Longrightarrow> updateOne i s cs = cs"
  by (induction cs) auto

lemma deleteOne_absent: "i \<notin> course_id ` set cs \<Longrightarrow> deleteOne i cs = cs"
  by (induction cs) auto

lemma updateOne_map:
  "distinct (map course_id cs) \<Longrightarrow>
   updateOne i s cs =
     map (\<lambda>c. if course_id c = i then c\<lparr>course_fields := course_fields c ++ s\<rparr> else c) cs"
proof (induction cs)
  case Nil
  show ?case by simp
next
  case (Cons c cs)
  show ?case
  proof (cases "course_id c = i")
    case True
    with Cons.prems have "i \<notin> course_id ` set cs"
      by simp
    then have "\<forall>x \<in> set cs. course_id x \<noteq> i"
      by blast
    then have "map (\<lambda>c. if course_id c = i then c\<lparr>course_fields := course_fields c ++ s\<rparr> else c) cs = cs"
      by (simp add: map_idI)
    with True show ?thesis by simp
  next
    case False
    with Cons show ?thesis by simp
  qed
qed

lemma deleteOne_filter:
  "distinct (map course_id cs) \<Longrightarrow> deleteOne i cs = filter (\<lambda>c. course_id c \<noteq> i) cs"
proof (induction cs)
  case Nil
  show ?case by simp
next
  case (Cons c cs)
  show ?case
  proof (cases "course_id c = i")
    case True
    with Cons.prems have "i \<notin> course_id ` set cs"
      by simp
    then have "\<forall>x \<in> set cs. course_id x \<noteq> i"
      by blast
    then have "filter (\<lambda>c. course_id c \<noteq> i) cs = cs"
      by simp
    with True show ?thesis by simp
  next
    case False
    with Cons show ?thesis by simp
  qed
qed

lemma at_most_one:
  "distinct (map course_id cs) \<Longrightarrow> length (filter (\<lambda>c. course_id c = i) cs) \<le> 1"
proof (induction cs)
  case Nil
  show ?case by simp
next
  case (Cons c cs)
  show ?case
  proof (cases "course_id c = i")
    case True
    with Cons.prems have "i \<notin> course_id ` set cs"
      by simp
    then have "filter (\<lambda>c. course_id c = i) cs = []"
      unfolding filter_empty_conv by blast
    with True show ?thesis by simp
  next
    case False
    with Cons show ?thesis by simp
  qed
qed

lemma updateOne_ids: "map course_id (updateOne i s cs) = map course_id cs"
  by (induction cs) auto

lemma handle_ids_unique: "ids_unique w \<Longrightarrow> ids_unique (snd (handle L a r w))"
proof (cases r)
  case (PostCourses b)
  assume "ids_unique w"
  with PostCourses show ?thesis
    by (auto simp: ids_unique_def createCourse_def insertOne_def Let_def split: option.splits)
next
  case (PutCourse i b)
  assume "ids_unique w"
  with PutCourse show ?thesis
    by (auto simp: ids_unique_def updateCourse_def updateOne_ids split: option.splits)
next
  case (DeleteCourse i)
  assume "ids_unique w"
  with DeleteCourse show ?thesis
    by (auto simp: ids_unique_def deleteCourse_def deleteOne_filter distinct_map_filter
        split: option.splits)
qed (auto simp: ids_unique_def register_def login_def googleLogin_def listCourses_def health_def
      split: option.splits)

lemma serve_ids_unique: "ids_unique w \<Longrightarrow> ids_unique (serve L rs w)"
proof (induction rs arbitrary: w)
  case Nil
  then show ?case by simp
next
  case (Cons ar rs)
  obtain a r where "ar = (a, r)" by (cases ar)
  with Cons show ?case by (simp add: handle_ids_unique)
qed

text \<open>
  C8. In a world whose course identifiers are unique, for a route parameter that names the
  identifier \<open>i\<close>, \<open>updateCourse\<close> answers 200 ``Course updated successfully!''. The
  collection keeps its length and its identifiers; the record with identifier \<open>i\<close> gets
  the value of the body at every field the body has and keeps the others; every other
  record, the users and the image host log are unchanged. When no record has the
  identifier \<open>i\<close> the world is unchanged.
\<close>

theorem updateCourse_frame:
  assumes "ids_unique w"
    and "ObjectId L ident = Some i"
    and "updateCourse L w ident b = (r, w')"
  shows "r = Response 200 (Message ''Course updated successfully!'')
       \<and> usersCollection w' = usersCollection w \<and> imgbb_calls w' = imgbb_calls w
       \<and> length (coursesCollection w') = length (coursesCollection w)
       \<and> (\<forall>k < length (coursesCollection w).
            course_id (coursesCollection w' ! k) = course_id (coursesCollection w ! k)
            \<and> (\<forall>f. course_fields (coursesCollection w' ! k) f =
                  (if course_id (coursesCollection w ! k) = i \<and> b f \<noteq> None then b f
                   else course_fields (coursesCollection w ! k) f))
            \<and> (course_id (coursesCollection w ! k) \<noteq> i \<longrightarrow>
                  coursesCollection w' ! k = coursesCollection w ! k))
       \<and> (i \<notin> course_id ` set (coursesCollection w) \<longrightarrow> w' = w)"
proof -
  let ?cs = "coursesCollection w"
  let ?g = "\<lambda>c. if course_id c = i then c\<lparr>course_fields := course_fields c ++ b\<rparr> else c"
  from assms(2,3) have r: "r = Response 200 (Message ''Course updated successfully!'')"
    and w': "w' = w\<lparr>coursesCollection := updateOne i b ?cs\<rparr>"
    by (auto simp: updateCourse_def)
  have cs': "coursesCollection w' = map ?g ?cs"
    using assms(1) by (simp add: w' ids_unique_def updateOne_map)
  have fields: "course_fields (?g c) f =
      (if course_id c = i \<and> b f \<noteq> None then b f else course_fields c f)" for c f
    by (auto simp: map_add_def split: option.splits)
  have absent: "i \<notin> course_id ` set ?cs \<longrightarrow> w' = w"
    by (simp add: w' updateOne_absent)
  show ?thesis
    using r absent by (simp add: cs' fields) (simp add: w')
qed

text \<open>
  C9. In a world whose course identifiers are unique, for a route parameter that names the
  identifier \<open>i\<close>, \<open>deleteCourse\<close> answers 200 ``Course deleted successfully!'' and
  leaves the world as it was but for the records with identifier \<open>i\<close>, of which there
  is at most one; the same call on the resulting world answers 200 again and changes
  nothing.
\<close>

theorem deleteCourse_frame:
  assumes "ids_unique w"
    and "ObjectId L ident = Some i"
    and "deleteCourse L w ident = (r, w')"
  shows "r = Response 200 (Message ''Course deleted successfully!'')
       \<and> w' = w\<lparr>coursesCollection := filter (\<lambda>c. course_id c \<noteq> i) (coursesCollection w)\<rparr>
       \<and> length (filter (\<lambda>c. course_id c = i) (coursesCollection w)) \<le> 1
       \<and> deleteCourse L w' ident = (Response 200 (Message ''Course deleted successfully!''), w')"
proof -
  let ?cs = "coursesCollection w"
  from assms(2,3) have r: "r = Response 200 (Message ''Course deleted successfully!'')"
    and w': "w' = w\<lparr>coursesCollection := deleteOne i ?cs\<rparr>"
    by (auto simp: deleteCourse_def)
  have d: "deleteOne i ?cs = filter (\<lambda>c. course_id c \<noteq> i) ?cs"
    using assms(1) by (simp add: ids_unique_def deleteOne_filter)
  have "i \<notin> course_id ` set (filter (\<lambda>c. course_id c \<noteq> i) ?cs)"
    by auto
  then have again: "deleteOne i (filter (\<lambda>c. course_id c \<noteq> i) ?cs) = filter (\<lambda>c. course_id c \<noteq> i) ?cs"
    by (rule deleteOne_absent)
  have one: "length (filter (\<lambda>c. course_id c = i) ?cs) \<le> 1"
    using assms(1) unfolding ids_unique_def by (rule at_most_one)
  show ?thesis
    using r one by (simp add: w' d deleteCourse_def assms(2) again)
qed


lemma two_courses_ids: "ids_unique two_courses"
  by (simp add: ids_unique_def two_courses_def math_course_def art_course_def)

lemma ObjectId_2: "ObjectId plain_libs (lit ''000000000000000000000002'') = Some 2"
  by (simp add: plain_libs_def hex24_def lit_def hex_digit_def)

lemma ObjectId_xyz: "ObjectId plain_libs (lit ''xyz'') = None"
  by (simp add: plain_libs_def hex24_def lit_def)

lemma update_art:
  "updateCourse plain_libs two_courses (lit ''000000000000000000000002'') [Price \<mapsto> JNum 25] =
     (Response 200 (Message ''Course updated successfully!''), art_priced)"
  by (simp add: updateCourse_def ObjectId_2 art_priced_def)
    (simp add: two_courses_def math_course_def art_course_def)

lemma delete_art:
  "deleteCourse plain_libs two_courses (lit ''000000000000000000000002'') =
     (Response 200 (Message ''Course deleted successfully!''), math_only)"
  by (simp add: deleteCourse_def ObjectId_2 math_only_def)
    (simp add: two_courses_def math_course_def art_course_def)

text \<open>A route parameter that \<open>ObjectId\<close> rejects ends in the \<open>catch\<close>: 500, nothing changed.\<close>

lemma updateCourse_malformed:
  "ObjectId L ident = None \<Longrightarrow> updateCourse L w ident b = (server_error, w)"
  by (simp add: updateCourse_def)

lemma deleteCourse_malformed:
  "ObjectId L ident = None \<Longrightarrow> deleteCourse L w ident = (server_error, w)"
  by (simp add: deleteCourse_def)

lemma update_malformed_example:
  "updateCourse plain_libs two_courses (lit ''xyz'') b = (server_error, two_courses)"
  by (simp add: updateCourse_malformed ObjectId_xyz)

theorem updateCourse_frame_witness:
  "ids_unique two_courses
   \<and> ObjectId plain_libs (lit ''000000000000000000000002'') = Some 2
   \<and> updateCourse plain_libs two_courses (lit ''000000000000000000000002'') [Price \<mapsto> JNum 25] =
       (Response 200 (Message ''Course updated successfully!''), art_priced)
   \<and> length (coursesCollection art_priced) = length (coursesCollection two_courses)
   \<and> course_fields (coursesCollection art_priced ! 1) Price = Some (JNum 25)
   \<and> course_fields (coursesCollection art_priced ! 1) Category =
       course_fields (coursesCollection two_courses ! 1) Category
   \<and> coursesCollection art_priced ! 0 = coursesCollection two_courses ! 0"
proof -
  have l: "(1::nat) < length (coursesCollection two_courses)"
    "(0::nat) < length (coursesCollection two_courses)"
    by (simp_all add: two_courses_def)
  have i: "course_id (coursesCollection two_courses ! 1) = 2"
    "course_id (coursesCollection two_courses ! 0) \<noteq> 2"
    by (simp_all add: two_courses_def math_course_def art_course_def)
  have b: "[Price \<mapsto> JNum 25] Price = Some (JNum 25)" "[Price \<mapsto> JNum 25] Category = None"
    by simp_all
  from updateCourse_frame [OF two_courses_ids ObjectId_2 update_art]
  have "length (coursesCollection art_priced) = length (coursesCollection two_courses)"
    and "\<forall>k < length (coursesCollection two_courses).
            (\<forall>f. course_fields (coursesCollection art_priced ! k) f =
                  (if course_id (coursesCollection two_courses ! k) = 2
                      \<and> [Price \<mapsto> JNum 25] f \<noteq> None then [Price \<mapsto> JNum 25] f
                   else course_fields (coursesCollection two_courses ! k) f))
            \<and> (course_id (coursesCollection two_courses ! k) \<noteq> 2 \<longrightarrow>
                  coursesCollection art_priced ! k = coursesCollection two_courses ! k)"
    by blast+
  with l i b show ?thesis
    using two_courses_ids ObjectId_2 update_art by (metis option.distinct(1))
qed

theorem deleteCourse_frame_witness:
  "ids_unique two_courses
   \<and> ObjectId plain_libs (lit ''000000000000000000000002'') = Some 2
   \<and> deleteCourse plain_libs two_courses (lit ''000000000000000000000002'') =
       (Response 200 (Message ''Course deleted successfully!''), math_only)
   \<and> deleteCourse plain_libs math_only (lit ''000000000000000000000002'') =
       (Response 200 (Message ''Course deleted successfully!''), math_only)"
  using two_courses_ids ObjectId_2 delete_art
    deleteCourse_frame [OF two_courses_ids ObjectId_2 delete_art]
  by blast

end
